theory Spec2Isabelle
  imports Complex_Main
begin

section \<open>The storefront script \<^verbatim>\<open>src/js/app.js\<close>\<close>

text \<open>
  A shallow embedding of the cart, filter, persistence and contact-form code of
  \<^verbatim>\<open>src/js/app.js\<close>. Conventions of the embedding:
  \<^item> A JavaScript string is a list of 16-bit code units. The embedding covers the strings
    whose code units lie in U+0000..U+00FF: a \<^typ>\<open>char\<close> stands for the code unit with the
    same number, so \<open>length\<close> is JavaScript's \<^verbatim>\<open>length\<close>.
  \<^item> A JavaScript number is an IEEE double. Product ids and quantities are integers
    (\<^typ>\<open>int\<close>); prices are exact rationals (\<^typ>\<open>rat\<close>), so the rounding of double
    arithmetic is not part of the embedding. \<open>None\<close> of type \<open>rat option\<close> stands for
    \<^verbatim>\<open>NaN\<close> where the code can produce it.
  \<^item> The catalog holds well-typed products (the six fields of the data model), so a cart
    line built by \<^verbatim>\<open>{ ...prod, qty: 1 }\<close> is either a product's fields plus \<^verbatim>\<open>qty\<close>, or,
    when \<^verbatim>\<open>prod\<close> is \<^verbatim>\<open>undefined\<close>, the object \<^verbatim>\<open>{ qty: 1 }\<close>.
  \<^item> An exception leaves the state as it is at the throw: a handler returns
    \<open>Done s\<close> or \<open>Threw e s\<close>.
\<close>

subsection \<open>Strings\<close>

text \<open>White space and line terminators of ECMAScript below U+0100: what \<^verbatim>\<open>trim()\<close> strips
  and what \<^verbatim>\<open>\s\<close> matches.\<close>

definition is_space :: "char \<Rightarrow> bool" where
  "is_space c = (c \<in> set [CHR 0x09, CHR 0x0A, CHR 0x0B, CHR 0x0C, CHR 0x0D, CHR 0x20, CHR 0xA0])"

definition trim :: "string \<Rightarrow> string" where
  "trim s = rev (dropWhile is_space (rev (dropWhile is_space s)))"

text \<open>\<^verbatim>\<open>toLowerCase()\<close> below U+0100: A..Z, and the Latin-1 capitals U+00C0..U+00DE
  but the multiplication sign U+00D7, move up by 0x20.\<close>

definition lower_char :: "char \<Rightarrow> char" where
  "lower_char c =
     (let n = (of_char c :: nat) in
      if (65 \<le> n \<and> n \<le> 90) \<or> (192 \<le> n \<and> n \<le> 222 \<and> n \<noteq> 215) then char_of (n + 32) else c)"

definition toLowerCase :: "string \<Rightarrow> string" where
  "toLowerCase s = map lower_char s"

text \<open>\<^verbatim>\<open>s.includes(q)\<close>: \<open>q\<close> occurs in \<open>s\<close> as a contiguous run.\<close>

fun starts_with :: "string \<Rightarrow> string \<Rightarrow> bool" where
  "starts_with s [] = True"
| "starts_with [] (c # q) = False"
| "starts_with (d # s) (c # q) = (d = c \<and> starts_with s q)"

fun includes_str :: "string \<Rightarrow> string \<Rightarrow> bool" where
  "includes_str [] q = (q = [])"
| "includes_str (c # s) q = (starts_with (c # s) q \<or> includes_str s q)"

subsection \<open>Numbers as text\<close>

definition digit_char :: "nat \<Rightarrow> char" where
  "digit_char n = ''0123456789'' ! (n mod 10)"

fun show_nat :: "nat \<Rightarrow> string" where
  "show_nat n = (if n < 10 then [digit_char n] else show_nat (n div 10) @ [digit_char (n mod 10)])"

declare show_nat.simps [simp del]

definition show_int :: "int \<Rightarrow> string" where
  "show_int i = (if i < 0 then CHR ''-'' # show_nat (nat (- i)) else show_nat (nat i))"

text \<open>The digits after the decimal point of the fraction \<open>a / q\<close> (\<open>a < q\<close>), for a
  denominator with no prime factor but 2 and 5; each step multiplies by ten and cancels.\<close>

function fdigits :: "nat \<Rightarrow> nat \<Rightarrow> string" where
  "fdigits a q =
     (if a = 0 \<or> q = 0 \<or> gcd q 10 = 1 then []
      else let g = gcd q 10; q' = q div g; a' = a * (10 div g)
           in digit_char (a' div q') # fdigits (a' mod q') q')"
  by pat_completeness auto
termination
proof (relation "measure snd")
  show "wf (measure snd)" by simp
next
  fix a q :: nat and g q' a'
  assume h: "\<not> (a = 0 \<or> q = 0 \<or> gcd q 10 = 1)" and g: "g = gcd q 10" and q': "q' = q div g"
  from h have "0 < q" "1 < gcd q 10"
    by (auto simp: less_Suc_eq_0_disj intro: Suc_lessI gcd_pos_nat)
  then have "q div gcd q 10 < q"
    by (intro div_less_dividend) simp_all
  with g q' show "((a' mod q', q'), (a, q)) \<in> measure snd" by simp
qed

declare fdigits.simps [simp del]

text \<open>\<^verbatim>\<open>Number::toString\<close> of an exact decimal, in positional notation (JavaScript prints
  numbers between \<open>10\<^sup>-\<^sup>6\<close> and \<open>10\<^sup>2\<^sup>1\<close> so).\<close>

definition show_num :: "rat \<Rightarrow> string" where
  "show_num r =
     (let m = \<bar>r\<bar>; w = \<lfloor>m\<rfloor>; (a, q) = quotient_of (m - of_int w)
      in (if r < 0 then ''-'' else '''') @ show_nat (nat w) @
         (if a = 0 then [] else CHR ''.'' # fdigits (nat a) (nat q)))"

text \<open>\<^verbatim>\<open>x.toFixed(2)\<close>: the sign, then the integer \<open>n\<close> nearest to \<open>100 * \<bar>x\<bar>\<close>, the larger
  one at a tie, printed with two digits after the point; \<^verbatim>\<open>NaN\<close> prints as such. (From
  \<open>10\<^sup>2\<^sup>1\<close> on JavaScript prints the exponent form, which the embedding does not cover.)\<close>

definition toFixed2 :: "rat option \<Rightarrow> string" where
  "toFixed2 x =
     (case x of
        None \<Rightarrow> ''NaN''
      | Some r \<Rightarrow>
          (let n = nat \<lfloor>\<bar>r\<bar> * 100 + 1 / 2\<rfloor>
           in (if r < 0 then ''-'' else '''') @ show_nat (n div 100) @
              [CHR ''.'', digit_char (n mod 100 div 10), digit_char (n mod 10)]))"

subsection \<open>JSON values and \<^verbatim>\<open>JSON.stringify\<close>\<close>

text \<open>An object is the list of its properties in their order.\<close>

datatype json =
    JNull
  | JBool bool
  | JNum rat
  | JStr string
  | JArr "json list"
  | JObj "(string \<times> json) list"

definition hex_char :: "nat \<Rightarrow> char" where
  "hex_char n = ''0123456789abcdef'' ! (n mod 16)"

text \<open>\<^verbatim>\<open>QuoteJSONString\<close>: the short escapes, \<^verbatim>\<open>\u00xx\<close> for the other control characters,
  every other code unit as it is.\<close>

definition quote_char :: "char \<Rightarrow> string" where
  "quote_char c =
     (if c = CHR 0x08 then [CHR 0x5C, CHR ''b'']
      else if c = CHR 0x09 then [CHR 0x5C, CHR ''t'']
      else if c = CHR 0x0A then [CHR 0x5C, CHR ''n'']
      else if c = CHR 0x0C then [CHR 0x5C, CHR ''f'']
      else if c = CHR 0x0D then [CHR 0x5C, CHR ''r'']
      else if c = CHR 0x22 then [CHR 0x5C, CHR 0x22]
      else if c = CHR 0x5C then [CHR 0x5C, CHR 0x5C]
      else if (of_char c :: nat) < 32
        then [CHR 0x5C, CHR ''u'', CHR ''0'', CHR ''0'',
              hex_char ((of_char c :: nat) div 16), hex_char ((of_char c :: nat) mod 16)]
      else [c])"

definition quote :: "string \<Rightarrow> string" where
  "quote s = CHR 0x22 # concat (map quote_char s) @ [CHR 0x22]"

fun stringify :: "json \<Rightarrow> string"
  and stringify_elems :: "json list \<Rightarrow> string"
  and stringify_members :: "(string \<times> json) list \<Rightarrow> string" where
  "stringify JNull = ''null''"
| "stringify (JBool b) = (if b then ''true'' else ''false'')"
| "stringify (JNum r) = show_num r"
| "stringify (JStr s) = quote s"
| "stringify (JArr vs) = ''['' @ stringify_elems vs @ '']''"
| "stringify (JObj ms) = ''{'' @ stringify_members ms @ ''}''"
| "stringify_elems [] = []"
| "stringify_elems [v] = stringify v"
| "stringify_elems (v # w # vs) = stringify v @ '','' @ stringify_elems (w # vs)"
| "stringify_members [] = []"
| "stringify_members [(k, v)] = quote k @ '':'' @ stringify v"
| "stringify_members ((k, v) # m # ms) =
     quote k @ '':'' @ stringify v @ '','' @ stringify_members (m # ms)"

subsection \<open>Data model\<close>

record product =
  id_of :: int
  title :: string
  price :: rat
  description :: string
  category :: string
  image_of :: string

text \<open>A cart line is \<^verbatim>\<open>{ ...prod, qty }\<close>: \<open>spread\<close> holds the fields copied from \<^verbatim>\<open>prod\<close>,
  none when \<^verbatim>\<open>prod\<close> was \<^verbatim>\<open>undefined\<close>.\<close>

record cart_line =
  spread :: "product option"
  qty :: int

text \<open>\<^verbatim>\<open>i.id\<close> and \<^verbatim>\<open>i.price\<close> of a line; \<open>None\<close> is \<^verbatim>\<open>undefined\<close>.\<close>

definition line_id :: "cart_line \<Rightarrow> int option" where
  "line_id i = map_option id_of (spread i)"

definition line_price :: "cart_line \<Rightarrow> rat option" where
  "line_price i = map_option price (spread i)"

datatype error = TypeError string | SyntaxError

datatype notice = Alert string | Confirm string | Toast string | Opened string

record card =
  card_image :: string
  card_title :: string
  card_price :: string
  card_id :: int

datatype product_markup = NoProducts | Cards "card list"

record item_view =
  item_image :: string
  item_title :: string
  item_price :: string
  item_qty :: int
  item_id :: int

datatype cart_markup = EmptyCart | Items "item_view list"

text \<open>The module's variables (\<^verbatim>\<open>products\<close>, \<^verbatim>\<open>filtered\<close>, \<^verbatim>\<open>cart\<close>), the \<^verbatim>\<open>localStorage\<close> of
  the origin, the parts of the page the code reads and writes, and the dialogs, toasts
  and windows it has opened so far.\<close>

record state =
  products :: "product list"
  filtered :: "product list"
  cart :: "cart_line list"
  localStorage :: "string \<Rightarrow> string option"
  searchValue :: string
  categoryValue :: string
  productList :: product_markup
  cartCount :: string
  cartItems :: cart_markup
  cartTotal :: string
  cartHidden :: bool
  cartExpanded :: bool
  notices :: "notice list"

datatype outcome = Done state | Threw error state

text \<open>The state a call leaves behind, returned or thrown.\<close>

fun after :: "outcome \<Rightarrow> state" where
  "after (Done s) = s"
| "after (Threw e s) = s"

text \<open>The exception a call ended with, if any.\<close>

fun thrown :: "outcome \<Rightarrow> error option" where
  "thrown (Done s) = None"
| "thrown (Threw e s) = Some e"

text \<open>Sequencing: the rest of a function body runs only when the call returned.\<close>

fun and_then :: "outcome \<Rightarrow> (state \<Rightarrow> outcome) \<Rightarrow> outcome" where
  "and_then (Done s) f = f s"
| "and_then (Threw e s) f = Threw e s"

subsection \<open>Rendering\<close>

text \<open>\<^verbatim>\<open>escape(str = '')\<close>\<close>

definition escape_char :: "char \<Rightarrow> string" where
  "escape_char c =
     (if c = CHR ''&'' then ''&amp;''
      else if c = CHR ''<'' then ''&lt;''
      else if c = CHR ''>'' then ''&gt;''
      else if c = CHR 0x22 then ''&quot;''
      else if c = CHR 0x27 then ''&#39;''
      else [c])"

definition escape :: "string \<Rightarrow> string" where
  "escape str = concat (map escape_char str)"

text \<open>\<^verbatim>\<open>renderProducts(list)\<close>: the markup of \<^verbatim>\<open>#product-list\<close>, one card per product with
  the values the template interpolates.\<close>

definition renderProducts :: "product list \<Rightarrow> state \<Rightarrow> state" where
  "renderProducts list s =
     (if list = [] then s\<lparr>productList := NoProducts\<rparr>
      else s\<lparr>productList := Cards (map (\<lambda>p.
             \<lparr>card_image = escape (image_of p), card_title = escape (title p),
              card_price = toFixed2 (Some (price p)), card_id = id_of p\<rparr>) list)\<rparr>)"

text \<open>One cart item of \<^verbatim>\<open>updateCartUI\<close>'s template. A line without the product's fields
  has no \<^verbatim>\<open>price\<close>, and \<^verbatim>\<open>i.price.toFixed(2)\<close> throws.\<close>

definition render_item :: "cart_line \<Rightarrow> error + item_view" where
  "render_item i =
     (case spread i of
        None \<Rightarrow> Inl (TypeError ''toFixed'')
      | Some p \<Rightarrow>
          Inr \<lparr>item_image = escape (image_of p), item_title = escape (title p),
               item_price = toFixed2 (Some (price p)), item_qty = qty i, item_id = id_of p\<rparr>)"

text \<open>\<^verbatim>\<open>cart.map(i => `...`)\<close>: the first item that throws ends the loop.\<close>

fun render_items :: "cart_line list \<Rightarrow> error + item_view list" where
  "render_items [] = Inr []"
| "render_items (i # c) =
     (case render_item i of
        Inl e \<Rightarrow> Inl e
      | Inr v \<Rightarrow> (case render_items c of Inl e \<Rightarrow> Inl e | Inr vs \<Rightarrow> Inr (v # vs)))"

subsection \<open>Totals\<close>

text \<open>Arithmetic on numbers that may be \<^verbatim>\<open>NaN\<close>.\<close>

definition num_add :: "rat option \<Rightarrow> rat option \<Rightarrow> rat option" where
  "num_add a b = (case a of None \<Rightarrow> None | Some x \<Rightarrow> (case b of None \<Rightarrow> None | Some y \<Rightarrow> Some (x + y)))"

definition num_mul :: "rat option \<Rightarrow> rat option \<Rightarrow> rat option" where
  "num_mul a b = (case a of None \<Rightarrow> None | Some x \<Rightarrow> (case b of None \<Rightarrow> None | Some y \<Rightarrow> Some (x * y)))"

text \<open>\<^verbatim>\<open>cart.reduce((a, i) => a + i.qty, 0)\<close>\<close>

definition itemCount :: "cart_line list \<Rightarrow> int" where
  "itemCount c = foldl (\<lambda>a i. a + qty i) 0 c"

text \<open>\<^verbatim>\<open>cart.reduce((t, i) => t + i.price * i.qty, 0)\<close>; an \<^verbatim>\<open>undefined\<close> price makes the
  product \<^verbatim>\<open>NaN\<close>.\<close>

definition grandTotal :: "cart_line list \<Rightarrow> rat option" where
  "grandTotal c = foldl (\<lambda>t i. num_add t (num_mul (line_price i) (Some (of_int (qty i))))) (Some 0) c"

definition updateCartUI :: "state \<Rightarrow> outcome" where
  "updateCartUI s =
     (let s1 = s\<lparr>cartCount := show_int (itemCount (cart s))\<rparr>
      in if cart s = []
         then Done (s1\<lparr>cartItems := EmptyCart, cartTotal := toFixed2 (grandTotal (cart s))\<rparr>)
         else (case render_items (cart s) of
                 Inl e \<Rightarrow> Threw e s1
               | Inr vs \<Rightarrow>
                   Done (s1\<lparr>cartItems := Items vs, cartTotal := toFixed2 (grandTotal (cart s))\<rparr>)))"

subsection \<open>Persistence\<close>

definition product_json :: "product \<Rightarrow> (string \<times> json) list" where
  "product_json p =
     [(''id'', JNum (of_int (id_of p))), (''title'', JStr (title p)), (''price'', JNum (price p)),
      (''description'', JStr (description p)), (''category'', JStr (category p)),
      (''image'', JStr (image_of p))]"

text \<open>The cart as the value \<^verbatim>\<open>JSON.stringify\<close> walks: an array of objects, \<^verbatim>\<open>qty\<close> last.\<close>

definition line_json :: "cart_line \<Rightarrow> json" where
  "line_json i =
     JObj ((case spread i of None \<Rightarrow> [] | Some p \<Rightarrow> product_json p) @ [(''qty'', JNum (of_int (qty i)))])"

definition cart_json :: "cart_line list \<Rightarrow> json" where
  "cart_json c = JArr (map line_json c)"

definition saveCart :: "state \<Rightarrow> state" where
  "saveCart s = s\<lparr>localStorage := (localStorage s)(''cart'' \<mapsto> stringify (cart_json (cart s)))\<rparr>"

subsection \<open>\<^verbatim>\<open>JSON.parse\<close>\<close>

text \<open>The grammar of ECMA-404 in two passes: the text is cut into tokens, and a stack
  machine builds the value from the tokens. Code units above U+00FF are outside the
  embedding, so a \<^verbatim>\<open>\u\<close> escape that denotes one is refused.\<close>

datatype token =
    TLBrack | TRBrack | TLBrace | TRBrace | TComma | TColon
  | TNull | TTrue | TFalse | TNum rat | TStr string

definition is_digit :: "char \<Rightarrow> bool" where
  "is_digit c = (48 \<le> (of_char c :: nat) \<and> (of_char c :: nat) \<le> 57)"

definition digit_val :: "char \<Rightarrow> int" where
  "digit_val c = of_char c - 48"

definition is_letter :: "char \<Rightarrow> bool" where
  "is_letter c = (97 \<le> (of_char c :: nat) \<and> (of_char c :: nat) \<le> 122)"

definition json_space :: "char \<Rightarrow> bool" where
  "json_space c = (c = CHR 0x20 \<or> c = CHR 0x09 \<or> c = CHR 0x0A \<or> c = CHR 0x0D)"

text \<open>The characters a number is written with.\<close>

definition num_char :: "char \<Rightarrow> bool" where
  "num_char c = (is_digit c \<or> c = CHR ''-'' \<or> c = CHR ''+'' \<or> c = CHR ''.'' \<or> c = CHR ''e'' \<or> c = CHR ''E'')"

definition digits_value :: "string \<Rightarrow> int" where
  "digits_value ds = foldl (\<lambda>n c. 10 * n + digit_val c) 0 ds"

text \<open>The value of the digits after a decimal point.\<close>

fun frac_value :: "string \<Rightarrow> rat" where
  "frac_value [] = 0"
| "frac_value (c # cs) = (of_int (digit_val c) + frac_value cs) / 10"

text \<open>\<^verbatim>\<open>-? (0 | [1-9][0-9]*) (. [0-9]+)? ([eE] [+-]? [0-9]+)?\<close> and its value.\<close>

definition parse_exponent :: "string \<Rightarrow> int option" where
  "parse_exponent s =
     (case s of
        [] \<Rightarrow> Some 0
      | c # r \<Rightarrow>
          if c = CHR ''e'' \<or> c = CHR ''E'' then
            (let neg = (r \<noteq> [] \<and> hd r = CHR ''-'');
                 ds = (if r \<noteq> [] \<and> (hd r = CHR ''-'' \<or> hd r = CHR ''+'') then tl r else r)
             in if ds \<noteq> [] \<and> list_all is_digit ds
                then Some (if neg then - digits_value ds else digits_value ds)
                else None)
          else None)"

definition parse_number :: "string \<Rightarrow> rat option" where
  "parse_number s =
     (let neg = (s \<noteq> [] \<and> hd s = CHR ''-'');
          s1 = (if neg then tl s else s);
          ds = takeWhile is_digit s1;
          s2 = dropWhile is_digit s1;
          dot = (s2 \<noteq> [] \<and> hd s2 = CHR ''.'');
          fs = (if dot then takeWhile is_digit (tl s2) else []);
          s3 = (if dot then dropWhile is_digit (tl s2) else s2)
      in if ds = [] \<or> (hd ds = CHR ''0'' \<and> ds \<noteq> ''0'') \<or> (dot \<and> fs = []) then None
         else (case parse_exponent s3 of
                 None \<Rightarrow> None
               | Some e \<Rightarrow>
                   (let m = of_int (digits_value ds) + frac_value fs;
                        v = (if 0 \<le> e then m * 10 ^ nat e else m / 10 ^ nat (- e))
                    in Some (if neg then - v else v))))"

definition hex_val :: "char \<Rightarrow> nat option" where
  "hex_val c =
     (let n = (of_char c :: nat) in
      if 48 \<le> n \<and> n \<le> 57 then Some (n - 48)
      else if 97 \<le> n \<and> n \<le> 102 then Some (n - 87)
      else if 65 \<le> n \<and> n \<le> 70 then Some (n - 55)
      else None)"

definition unicode_escape :: "char \<Rightarrow> char \<Rightarrow> char \<Rightarrow> char \<Rightarrow> char option" where
  "unicode_escape h1 h2 h3 h4 =
     (case hex_val h1 of None \<Rightarrow> None | Some a \<Rightarrow>
      (case hex_val h2 of None \<Rightarrow> None | Some b \<Rightarrow>
       (case hex_val h3 of None \<Rightarrow> None | Some c \<Rightarrow>
        (case hex_val h4 of None \<Rightarrow> None | Some d \<Rightarrow>
           (let n = ((a * 16 + b) * 16 + c) * 16 + d
            in if n < 256 then Some (char_of n) else None)))))"

definition simple_escape :: "char \<Rightarrow> char option" where
  "simple_escape e =
     (if e = CHR 0x22 then Some CHR 0x22
      else if e = CHR 0x5C then Some CHR 0x5C
      else if e = CHR ''/'' then Some CHR ''/''
      else if e = CHR ''b'' then Some CHR 0x08
      else if e = CHR ''f'' then Some CHR 0x0C
      else if e = CHR ''n'' then Some CHR 0x0A
      else if e = CHR ''r'' then Some CHR 0x0D
      else if e = CHR ''t'' then Some CHR 0x09
      else None)"

definition and_char :: "char \<Rightarrow> (string \<times> string) option \<Rightarrow> (string \<times> string) option" where
  "and_char c r = (case r of None \<Rightarrow> None | Some (s, rest) \<Rightarrow> Some (c # s, rest))"

text \<open>The characters of a string after its opening quote, up to the closing one, and the
  text that follows.\<close>

fun lex_string :: "string \<Rightarrow> (string \<times> string) option" where
  "lex_string [] = None"
| "lex_string (c # cs) =
     (if c = CHR 0x22 then Some ([], cs)
      else if c = CHR 0x5C then
        (case cs of
           [] \<Rightarrow> None
         | e # r \<Rightarrow>
             if e = CHR ''u'' then
               (case r of
                  h1 # h2 # h3 # h4 # r' \<Rightarrow>
                    (case unicode_escape h1 h2 h3 h4 of
                       None \<Rightarrow> None
                     | Some x \<Rightarrow> and_char x (lex_string r'))
                | _ \<Rightarrow> None)
             else (case simple_escape e of
                     None \<Rightarrow> None
                   | Some x \<Rightarrow> and_char x (lex_string r)))
      else if (of_char c :: nat) < 32 then None
      else and_char c (lex_string cs))"

definition literal :: "string \<Rightarrow> token option" where
  "literal s =
     (if s = ''null'' then Some TNull
      else if s = ''true'' then Some TTrue
      else if s = ''false'' then Some TFalse
      else None)"

definition punctuation :: "char \<Rightarrow> token option" where
  "punctuation c =
     (if c = CHR ''['' then Some TLBrack
      else if c = CHR '']'' then Some TRBrack
      else if c = CHR ''{'' then Some TLBrace
      else if c = CHR ''}'' then Some TRBrace
      else if c = CHR '','' then Some TComma
      else if c = CHR '':'' then Some TColon
      else None)"

definition and_token :: "token \<Rightarrow> token list option \<Rightarrow> token list option" where
  "and_token t r = (case r of None \<Rightarrow> None | Some ts \<Rightarrow> Some (t # ts))"

lemma and_char_Some: "and_char x r = Some (s, rest) \<longleftrightarrow> (\<exists>s'. r = Some (s', rest) \<and> s = x # s')"
  by (auto simp: and_char_def split: option.splits)

lemma lex_string_shorter: "lex_string cs = Some (s, rest) \<Longrightarrow> length rest < length cs"
proof (induction cs arbitrary: s rest rule: length_induct)
  case (1 cs)
  note IH = "1.IH"[rule_format]
  show ?case
  proof (cases cs)
    case Nil
    with "1.prems" show ?thesis by simp
  next
    case (Cons c t)
    consider (quote) "c = CHR 0x22" | (esc) "c \<noteq> CHR 0x22" "c = CHR 0x5C"
      | (plain) "c \<noteq> CHR 0x22" "c \<noteq> CHR 0x5C" by blast
    then show ?thesis
    proof cases
      case quote
      with "1.prems" Cons show ?thesis by simp
    next
      case plain
      with "1.prems" Cons obtain s' where "lex_string t = Some (s', rest)"
        by (auto simp: and_char_Some split: if_splits)
      from IH[OF _ this] Cons show ?thesis by simp
    next
      case esc
      with "1.prems" Cons obtain e r where t: "t = e # r"
        by (cases t) auto
      show ?thesis
      proof (cases "e = CHR ''u''")
        case False
        with "1.prems" Cons esc t obtain s' where "lex_string r = Some (s', rest)"
          by (auto simp: and_char_Some split: option.splits)
        from IH[OF _ this] Cons t show ?thesis by simp
      next
        case True
        with "1.prems" Cons esc t obtain h1 h2 h3 h4 r' s'
          where r: "r = h1 # h2 # h3 # h4 # r'" and "lex_string r' = Some (s', rest)"
          by (auto simp: and_char_Some split: option.splits list.splits)
        from IH[OF _ this(2)] Cons t r show ?thesis by simp
      qed
    qed
  qed
qed

function lex :: "string \<Rightarrow> token list option" where
  "lex [] = Some []"
| "lex (c # cs) =
     (if json_space c then lex cs
      else (case punctuation c of
              Some t \<Rightarrow> and_token t (lex cs)
            | None \<Rightarrow>
                if c = CHR 0x22 then
                  (case lex_string cs of
                     None \<Rightarrow> None
                   | Some (s, rest) \<Rightarrow> and_token (TStr s) (lex rest))
                else if num_char c then
                  (case parse_number (c # takeWhile num_char cs) of
                     None \<Rightarrow> None
                   | Some r \<Rightarrow> and_token (TNum r) (lex (dropWhile num_char cs)))
                else if is_letter c then
                  (case literal (c # takeWhile is_letter cs) of
                     None \<Rightarrow> None
                   | Some t \<Rightarrow> and_token t (lex (dropWhile is_letter cs)))
                else None))"
  by pat_completeness auto
termination
proof (relation "measure length")
  show "wf (measure length)" by simp
next
  fix c cs x s rest
  assume "lex_string cs = Some x" and "(s, rest) = x"
  then have "length rest < length cs" by (auto dest: lex_string_shorter)
  then show "(rest, c # cs) \<in> measure length" by simp
qed (simp_all add: le_imp_less_Suc length_dropWhile_le)

declare lex.simps [simp del]

text \<open>The canonical array indices: the decimal numerals below \<open>2\<^sup>3\<^sup>2 - 1\<close>. An object lists
  its properties with these keys first, in ascending order, and the other keys after them
  in the order they were created.\<close>

definition is_index :: "string \<Rightarrow> bool" where
  "is_index k = (k \<noteq> [] \<and> list_all is_digit k \<and> (hd k = CHR ''0'' \<longrightarrow> k = ''0'') \<and>
     digits_value k < 4294967295)"

text \<open>The entry of a new key goes after the entries it follows in that order.\<close>

fun insert_prop :: "(string \<times> json) list \<Rightarrow> string \<Rightarrow> json \<Rightarrow> (string \<times> json) list" where
  "insert_prop [] k v = [(k, v)]"
| "insert_prop ((k', v') # ms) k v =
     (if is_index k \<and> (\<not> is_index k' \<or> digits_value k < digits_value k')
      then (k, v) # (k', v') # ms
      else (k', v') # insert_prop ms k v)"

text \<open>\<^verbatim>\<open>CreateDataProperty\<close>: a key the object has keeps its place and takes the new value.\<close>

definition set_prop :: "(string \<times> json) list \<Rightarrow> string \<Rightarrow> json \<Rightarrow> (string \<times> json) list" where
  "set_prop ms k v =
     (if k \<in> fst ` set ms then map (\<lambda>m. if fst m = k then (k, v) else m) ms
      else insert_prop ms k v)"

text \<open>What the machine is building: an array with the elements read so far, an object
  with the properties read so far, and an object that has read a key and waits for its
  value.\<close>

datatype frame =
    FArr "json list"
  | FObj "(string \<times> json) list"
  | FKey "(string \<times> json) list" string

text \<open>What the machine expects next: a value; a value or \<^verbatim>\<open>]\<close>; a key or \<^verbatim>\<open>}\<close>; a key; a
  colon; a comma or the closing bracket; nothing, the value being complete.\<close>

datatype mode = MValue | MFirst | MObjFirst | MKey | MColon | MAfter | MDone json

fun deliver :: "json \<Rightarrow> frame list \<Rightarrow> (mode \<times> frame list) option" where
  "deliver v [] = Some (MDone v, [])"
| "deliver v (FArr vs # st) = Some (MAfter, FArr (vs @ [v]) # st)"
| "deliver v (FKey ms k # st) = Some (MAfter, FObj (set_prop ms k v) # st)"
| "deliver v (FObj ms # st) = None"

fun scalar :: "token \<Rightarrow> json option" where
  "scalar TNull = Some JNull"
| "scalar TTrue = Some (JBool True)"
| "scalar TFalse = Some (JBool False)"
| "scalar (TNum r) = Some (JNum r)"
| "scalar (TStr s) = Some (JStr s)"
| "scalar t = None"

definition begin_value :: "frame list \<Rightarrow> token \<Rightarrow> (mode \<times> frame list) option" where
  "begin_value st t =
     (case scalar t of
        Some v \<Rightarrow> deliver v st
      | None \<Rightarrow>
          if t = TLBrack then Some (MFirst, FArr [] # st)
          else if t = TLBrace then Some (MObjFirst, FObj [] # st)
          else None)"

definition begin_key :: "frame list \<Rightarrow> token \<Rightarrow> (mode \<times> frame list) option" where
  "begin_key st t =
     (case t of
        TStr k \<Rightarrow> (case st of FObj ms # st' \<Rightarrow> Some (MColon, FKey ms k # st') | _ \<Rightarrow> None)
      | _ \<Rightarrow> None)"

definition close_frame :: "frame list \<Rightarrow> token \<Rightarrow> (mode \<times> frame list) option" where
  "close_frame st t =
     (case st of
        FArr vs # st' \<Rightarrow> if t = TRBrack then deliver (JArr vs) st' else None
      | FObj ms # st' \<Rightarrow> if t = TRBrace then deliver (JObj ms) st' else None
      | _ \<Rightarrow> None)"

fun step :: "mode \<times> frame list \<Rightarrow> token \<Rightarrow> (mode \<times> frame list) option" where
  "step (MValue, st) t = begin_value st t"
| "step (MFirst, st) t = (if t = TRBrack then close_frame st t else begin_value st t)"
| "step (MObjFirst, st) t = (if t = TRBrace then close_frame st t else begin_key st t)"
| "step (MKey, st) t = begin_key st t"
| "step (MColon, st) t = (if t = TColon then Some (MValue, st) else None)"
| "step (MAfter, st) t =
     (if t = TComma
      then (case st of
              FArr vs # st' \<Rightarrow> Some (MValue, st)
            | FObj ms # st' \<Rightarrow> Some (MKey, st)
            | _ \<Rightarrow> None)
      else close_frame st t)"
| "step (MDone v, st) t = None"

fun run :: "mode \<times> frame list \<Rightarrow> token list \<Rightarrow> (mode \<times> frame list) option" where
  "run c [] = Some c"
| "run c (t # ts) = (case step c t of None \<Rightarrow> None | Some c' \<Rightarrow> run c' ts)"

definition JSON_parse :: "string \<Rightarrow> error + json" where
  "JSON_parse text =
     (case lex text of
        None \<Rightarrow> Inl SyntaxError
      | Some ts \<Rightarrow>
          (case run (MValue, []) ts of
             Some (MDone v, []) \<Rightarrow> Inr v
           | _ \<Rightarrow> Inl SyntaxError))"

text \<open>The values \<^verbatim>\<open>||\<close> passes over.\<close>

definition falsy :: "json \<Rightarrow> bool" where
  "falsy v = (v = JNull \<or> v = JBool False \<or> v = JNum 0 \<or> v = JStr [])"

text \<open>\<^verbatim>\<open>loadCart()\<close>. \<^verbatim>\<open>getItem\<close> gives \<^verbatim>\<open>null\<close> for a key that is not stored, and \<^verbatim>\<open>JSON.parse\<close>
  reads \<^verbatim>\<open>null\<close> as the text \<^verbatim>\<open>"null"\<close>; every exception is caught.\<close>

definition loadCart :: "(string \<Rightarrow> string option) \<Rightarrow> json" where
  "loadCart store =
     (case JSON_parse (case store ''cart'' of None \<Rightarrow> ''null'' | Some stored \<Rightarrow> stored) of
        Inl e \<Rightarrow> JArr []
      | Inr v \<Rightarrow> if falsy v then JArr [] else v)"

subsection \<open>Cart\<close>

definition toast :: "string \<Rightarrow> state \<Rightarrow> state" where
  "toast msg s = s\<lparr>notices := notices s @ [Toast msg]\<rparr>"

definition alert :: "string \<Rightarrow> state \<Rightarrow> state" where
  "alert msg s = s\<lparr>notices := notices s @ [Alert msg]\<rparr>"

definition openCart :: "state \<Rightarrow> state" where
  "openCart s = s\<lparr>cartHidden := False, cartExpanded := True\<rparr>"

definition closeCart :: "state \<Rightarrow> state" where
  "closeCart s = s\<lparr>cartHidden := True, cartExpanded := False\<rparr>"

definition toggleCart :: "state \<Rightarrow> state" where
  "toggleCart s = (if cartHidden s then openCart s else closeCart s)"

text \<open>\<^verbatim>\<open>i => i.id === n\<close> for a number \<open>n\<close>\<close>

definition has_id :: "int \<Rightarrow> cart_line \<Rightarrow> bool" where
  "has_id n i = (line_id i = Some n)"

text \<open>\<^verbatim>\<open>cart.find(...)\<close> returns a reference to the first line that satisfies the callback;
  an assignment through it changes that line in place.\<close>

fun modify_first :: "('a \<Rightarrow> bool) \<Rightarrow> ('a \<Rightarrow> 'a) \<Rightarrow> 'a list \<Rightarrow> 'a list" where
  "modify_first P f [] = []"
| "modify_first P f (x # xs) = (if P x then f x # xs else x # modify_first P f xs)"

text \<open>The statements of \<^verbatim>\<open>addToCart\<close> after the cart is changed.\<close>

definition added :: "state \<Rightarrow> outcome" where
  "added s =
     and_then (updateCartUI (saveCart s)) (\<lambda>s'. Done (openCart (toast ''Producto agregado'' s')))"

text \<open>\<^verbatim>\<open>addToCart(prod)\<close>. With \<^verbatim>\<open>prod\<close> undefined the callback \<^verbatim>\<open>i => i.id === prod.id\<close>
  throws at the first line it is called on; on an empty cart it is never called, \<^verbatim>\<open>item\<close> is
  undefined, and \<^verbatim>\<open>{ ...prod, qty: 1 }\<close> is \<^verbatim>\<open>{ qty: 1 }\<close>.\<close>

definition addToCart :: "product option \<Rightarrow> state \<Rightarrow> outcome" where
  "addToCart pr s =
     (case pr of
        None \<Rightarrow>
          if cart s = [] then added (s\<lparr>cart := cart s @ [\<lparr>spread = None, qty = 1\<rparr>]\<rparr>)
          else Threw (TypeError ''id'') s
      | Some p \<Rightarrow>
          (case find (has_id (id_of p)) (cart s) of
             Some item \<Rightarrow>
               added (s\<lparr>cart := modify_first (has_id (id_of p)) (\<lambda>i. i\<lparr>qty := qty i + 1\<rparr>) (cart s)\<rparr>)
           | None \<Rightarrow> added (s\<lparr>cart := cart s @ [\<lparr>spread = Some p, qty = 1\<rparr>]\<rparr>)))"

definition changeQty :: "int \<Rightarrow> int \<Rightarrow> state \<Rightarrow> outcome" where
  "changeQty n q s =
     (case find (has_id n) (cart s) of
        None \<Rightarrow> Done s
      | Some item \<Rightarrow>
          updateCartUI (saveCart
            (s\<lparr>cart := modify_first (has_id n) (\<lambda>i. i\<lparr>qty := max 1 (qty i + q)\<rparr>) (cart s)\<rparr>)))"

definition removeFromCart :: "int \<Rightarrow> state \<Rightarrow> outcome" where
  "removeFromCart n s =
     updateCartUI (saveCart (s\<lparr>cart := filter (\<lambda>i. \<not> has_id n i) (cart s)\<rparr>))"

definition msg_confirm_clear :: string where
  "msg_confirm_clear = CHR 0xBF # ''Vaciar carrito?''"

definition msg_empty_cart :: string where
  "msg_empty_cart = ''Carrito vac'' @ [CHR 0xED] @ ''o''"

text \<open>\<^verbatim>\<open>clearCart()\<close>; \<open>answer\<close> is what the user answers to \<^verbatim>\<open>confirm\<close>, when asked.\<close>

definition clearCart :: "bool \<Rightarrow> state \<Rightarrow> outcome" where
  "clearCart answer s =
     (if cart s = [] then Done s
      else let s1 = s\<lparr>notices := notices s @ [Confirm msg_confirm_clear]\<rparr>
           in if \<not> answer then Done s1
              else updateCartUI (saveCart (s1\<lparr>cart := []\<rparr>)))"

definition checkout :: "state \<Rightarrow> outcome" where
  "checkout s =
     (if cart s = [] then Done (alert msg_empty_cart s)
      else and_then (updateCartUI (saveCart ((alert ''Compra realizada (demo)'' s)\<lparr>cart := []\<rparr>)))
             (\<lambda>s'. Done (closeCart s')))"

subsection \<open>Clicks\<close>

text \<open>What the handlers read of \<^verbatim>\<open>e.target\<close>: \<open>data_id\<close> is \<^verbatim>\<open>Number(e.target.dataset.id)\<close>,
  \<open>None\<close> when it is \<^verbatim>\<open>NaN\<close> (an element without the attribute); the page writes the
  product ids there, so the number is an integer.\<close>

record target =
  data_id :: "int option"
  data_action :: "string option"
  classList :: "string list"

definition PRODUCTS_URL :: string where
  "PRODUCTS_URL = ''https://fakestoreapi.com/products''"

definition handleProductClick :: "target \<Rightarrow> state \<Rightarrow> outcome" where
  "handleProductClick t s =
     (case data_id t of
        None \<Rightarrow> Done s
      | Some n \<Rightarrow>
          if n = 0 then Done s
          else and_then
                 (if ''add'' \<in> set (classList t)
                  then addToCart (find (\<lambda>p. id_of p = n) (products s)) s else Done s)
                 (\<lambda>s'. if ''details'' \<in> set (classList t)
                       then Done (s'\<lparr>notices := notices s' @ [Opened (PRODUCTS_URL @ ''/'' @ show_int n)]\<rparr>)
                       else Done s'))"

definition handleCartClick :: "target \<Rightarrow> state \<Rightarrow> outcome" where
  "handleCartClick t s =
     (case data_id t of
        None \<Rightarrow> Done s
      | Some n \<Rightarrow>
          if n = 0 then Done s
          else and_then
                 (and_then
                    (if data_action t = Some ''inc'' then changeQty n 1 s else Done s)
                    (\<lambda>s'. if data_action t = Some ''dec'' then changeQty n (- 1) s' else Done s'))
                 (\<lambda>s'. if data_action t = Some ''remove'' then removeFromCart n s' else Done s'))"

subsection \<open>Filters\<close>

definition applyFilters :: "state \<Rightarrow> state" where
  "applyFilters s =
     (let q = toLowerCase (trim (searchValue s));
          cat = categoryValue s;
          s1 = s\<lparr>filtered := filter (\<lambda>p.
                  (cat = ''all'' \<or> category p = cat) \<and>
                  (includes_str (toLowerCase (title p)) q \<or>
                   includes_str (toLowerCase (description p)) q)) (products s)\<rparr>
      in renderProducts (filtered s1) s1)"

text \<open>The words of the specification: \<open>q\<close> is a case-insensitive substring of \<open>s\<close> when a
  contiguous run of \<open>s\<close> equals \<open>q\<close> up to the case of the letters.\<close>

definition ci_substring :: "string \<Rightarrow> string \<Rightarrow> bool" where
  "ci_substring q s = (\<exists>pre mid suf. s = pre @ mid @ suf \<and> toLowerCase mid = toLowerCase q)"

subsection \<open>Contact form\<close>

text \<open>The regular expressions the code uses are sequences of single characters and of
  \<^verbatim>\<open>[...]+\<close> over a character class, matched against the whole string (\<^verbatim>\<open>^...$\<close>).\<close>

datatype atom = One char | Many "char \<Rightarrow> bool"

fun matches :: "atom list \<Rightarrow> string \<Rightarrow> bool" where
  "matches [] s = (s = [])"
| "matches (One c # r) [] = False"
| "matches (One c # r) (x # s) = (x = c \<and> matches r s)"
| "matches (Many P # r) [] = False"
| "matches (Many P # r) (x # s) = (P x \<and> (matches (Many P # r) s \<or> matches r s))"

text \<open>\<^verbatim>\<open>/^[^\s@]+@[^\s@]+\.[^\s@]+$/\<close>\<close>

definition not_space_at :: "char \<Rightarrow> bool" where
  "not_space_at c = (\<not> is_space c \<and> c \<noteq> CHR ''@'')"

definition email_re :: "atom list" where
  "email_re = [Many not_space_at, One CHR ''@'', Many not_space_at, One CHR ''.'', Many not_space_at]"

record contact =
  name :: string
  email :: string
  message :: string

definition msg_email :: string where
  "msg_email = ''Email inv'' @ [CHR 0xE1] @ ''lido''"

text \<open>\<^verbatim>\<open>validateContact({ name, email, message })\<close>: the object \<^verbatim>\<open>e\<close>, as the list of its
  properties.\<close>

definition validateContact :: "contact \<Rightarrow> (string \<times> string) list" where
  "validateContact d =
     (if length (name d) < 2 then [(''name'', ''El nombre debe tener al menos 2 caracteres'')] else []) @
     (if \<not> matches email_re (email d) then [(''email'', msg_email)] else []) @
     (if length (message d) < 10 then [(''message'', ''Mensaje demasiado corto'')] else [])"

text \<open>The values of the three inputs of \<^verbatim>\<open>#contact-form\<close>, and the object \<^verbatim>\<open>data\<close> that
  \<^verbatim>\<open>handleContactForm\<close> builds from them and validates.\<close>

record contact_form =
  name_value :: string
  email_value :: string
  message_value :: string

definition form_data :: "contact_form \<Rightarrow> contact" where
  "form_data f =
     \<lparr>name = trim (name_value f), email = trim (email_value f), message = trim (message_value f)\<rparr>"

definition form_errors :: "contact_form \<Rightarrow> (string \<times> string) list" where
  "form_errors f = validateContact (form_data f)"

text \<open>The shape the specification gives for an email: a local part, an \<^verbatim>\<open>@\<close>, a domain, a
  dot and a top-level domain, the three parts not empty and free of white space.\<close>

definition shaped_as_claimed :: "string \<Rightarrow> bool" where
  "shaped_as_claimed s =
     (\<exists>a b c. s = a @ ''@'' @ b @ ''.'' @ c \<and> a \<noteq> [] \<and> b \<noteq> [] \<and> c \<noteq> [] \<and>
        (\<forall>x\<in>set (a @ b @ c). \<not> is_space x))"

text \<open>The same shape with the three parts free of \<^verbatim>\<open>@\<close> as well.\<close>

definition email_shaped :: "string \<Rightarrow> bool" where
  "email_shaped s =
     (\<exists>a b c. s = a @ ''@'' @ b @ ''.'' @ c \<and> a \<noteq> [] \<and> b \<noteq> [] \<and> c \<noteq> [] \<and>
        (\<forall>x\<in>set (a @ b @ c). \<not> is_space x \<and> x \<noteq> CHR ''@''))"

subsection \<open>Notions for the round trip through storage\<close>




text \<open>A text that does not go on with a character of a number or of a literal.\<close>

definition delimited :: "string \<Rightarrow> bool" where
  "delimited rest = (rest = [] \<or> (\<not> num_char (hd rest) \<and> \<not> is_letter (hd rest)))"

definition and_tokens :: "token list \<Rightarrow> token list option \<Rightarrow> token list option" where
  "and_tokens ts r = (case r of None \<Rightarrow> None | Some us \<Rightarrow> Some (ts @ us))"


text \<open>The invariants of the cart, read off a JSON value: an array, each element an object
  whose \<^verbatim>\<open>qty\<close> is a number of at least one, no two elements with the same \<^verbatim>\<open>id\<close>.\<close>

definition json_qty :: "json \<Rightarrow> rat option" where
  "json_qty v =
     (case v of
        JObj ms \<Rightarrow> (case map_of ms ''qty'' of Some (JNum q) \<Rightarrow> Some q | _ \<Rightarrow> None)
      | _ \<Rightarrow> None)"

definition json_id :: "json \<Rightarrow> json option" where
  "json_id v = (case v of JObj ms \<Rightarrow> map_of ms ''id'' | _ \<Rightarrow> None)"

definition json_cart_ok :: "json \<Rightarrow> bool" where
  "json_cart_ok v =
     (case v of
        JArr ls \<Rightarrow>
          list_all (\<lambda>l. case json_qty l of Some q \<Rightarrow> 1 \<le> q | None \<Rightarrow> False) ls \<and>
          distinct (map json_id ls)
      | _ \<Rightarrow> False)"

subsection \<open>Reachable states and the cart invariant\<close>

text \<open>The states the cart operations lead to from an empty cart. A call that throws leaves
  a state behind as well.\<close>

inductive reachable :: "state \<Rightarrow> bool" where
  start: "cart s = [] \<Longrightarrow> reachable s"
| add: "reachable s \<Longrightarrow> reachable (after (addToCart (Some p) s))"
| change: "reachable s \<Longrightarrow> reachable (after (changeQty n q s))"
| remove: "reachable s \<Longrightarrow> reachable (after (removeFromCart n s))"
| clear: "reachable s \<Longrightarrow> reachable (after (clearCart answer s))"
| checkout: "reachable s \<Longrightarrow> reachable (after (checkout s))"

text \<open>At most one line per id, every line with a product's fields and a quantity of at
  least one.\<close>

definition cart_ok :: "cart_line list \<Rightarrow> bool" where
  "cart_ok c = (distinct (map line_id c) \<and> (\<forall>i\<in>set c. spread i \<noteq> None \<and> 1 \<le> qty i))"

subsection \<open>Fixtures\<close>

text \<open>The catalog of the specification's scenario; the fields it leaves out are empty.\<close>

definition red_shirt :: product where
  "red_shirt = \<lparr>id_of = 1, title = ''Red Shirt'', price = 1999 / 100, description = [],
     category = ''clothing'', image_of = []\<rparr>"

definition blue_hat :: product where
  "blue_hat = \<lparr>id_of = 2, title = ''Blue Hat'', price = 19 / 2, description = [],
     category = ''clothing'', image_of = []\<rparr>"

text \<open>A page with the scenario's catalog loaded, an empty cart and nothing stored.\<close>

definition shop :: state where
  "shop = \<lparr>products = [red_shirt, blue_hat], filtered = [red_shirt, blue_hat], cart = [],
     localStorage = Map.empty, searchValue = [], categoryValue = ''all'',
     productList = NoProducts, cartCount = [], cartItems = EmptyCart, cartTotal = [],
     cartHidden = True, cartExpanded = False, notices = []\<rparr>"

section \<open>Properties\<close>

subsection \<open>The cart after each operation\<close>

lemma cart_saveCart [simp]: "cart (saveCart s) = cart s"
  by (simp add: saveCart_def)

lemma cart_after_updateCartUI [simp]: "cart (after (updateCartUI s)) = cart s"
  by (simp add: updateCartUI_def Let_def split: sum.split)

lemma cart_after_and_then:
  assumes "\<And>s'. cart (after (f s')) = cart s'"
  shows "cart (after (and_then r f)) = cart (after r)"
  using assms by (cases r) simp_all

lemma cart_after_added [simp]: "cart (after (added s)) = cart s"
  unfolding added_def
  by (subst cart_after_and_then) (simp_all add: openCart_def toast_def)

lemma cart_addToCart:
  "cart (after (addToCart (Some p) s)) =
     (case find (has_id (id_of p)) (cart s) of
        Some item \<Rightarrow> modify_first (has_id (id_of p)) (\<lambda>i. i\<lparr>qty := qty i + 1\<rparr>) (cart s)
      | None \<Rightarrow> cart s @ [\<lparr>spread = Some p, qty = 1\<rparr>])"
  by (simp add: addToCart_def split: option.split)

lemma modify_first_absent: "find P xs = None \<Longrightarrow> modify_first P f xs = xs"
  by (induction xs) (auto split: if_splits)

lemma modify_first_same:
  "(\<And>x. find P xs = Some x \<Longrightarrow> f x = x) \<Longrightarrow> modify_first P f xs = xs"
  by (induction xs) (auto split: if_splits)

lemma changeQty_absent: "find (has_id n) (cart s) = None \<Longrightarrow> changeQty n q s = Done s"
  by (simp add: changeQty_def)

lemma cart_changeQty:
  "cart (after (changeQty n q s)) =
     modify_first (has_id n) (\<lambda>i. i\<lparr>qty := max 1 (qty i + q)\<rparr>) (cart s)"
  by (simp add: changeQty_def modify_first_absent split: option.split)

lemma cart_removeFromCart:
  "cart (after (removeFromCart n s)) = filter (\<lambda>i. \<not> has_id n i) (cart s)"
  by (simp add: removeFromCart_def)

lemma cart_clearCart: "cart (after (clearCart answer s)) = (if answer then [] else cart s)"
  by (simp add: clearCart_def Let_def)

lemma cart_checkout: "cart (after (checkout s)) = []"
  unfolding checkout_def
  by (simp add: alert_def cart_after_and_then closeCart_def)

lemma map_line_id_modify_first:
  "(\<And>i. line_id (f i) = line_id i) \<Longrightarrow> map line_id (modify_first P f c) = map line_id c"
  by (induction c) simp_all

lemma set_modify_first: "set (modify_first P f c) \<subseteq> set c \<union> f ` set c"
  by (induction c) auto

lemma cart_ok_modify:
  assumes "cart_ok c" "\<And>i. spread (f i) = spread i" "\<And>i. 1 \<le> qty i \<Longrightarrow> 1 \<le> qty (f i)"
  shows "cart_ok (modify_first P f c)"
proof -
  have "map line_id (modify_first P f c) = map line_id c"
    by (rule map_line_id_modify_first) (simp add: line_id_def assms(2))
  moreover have "\<forall>i\<in>set (modify_first P f c). spread i \<noteq> None \<and> 1 \<le> qty i"
  proof
    fix i
    assume "i \<in> set (modify_first P f c)"
    then consider "i \<in> set c" | j where "j \<in> set c" "i = f j"
      using set_modify_first[of P f c] by blast
    then show "spread i \<noteq> None \<and> 1 \<le> qty i"
    proof cases
      case 1
      with assms(1) show ?thesis by (simp add: cart_ok_def)
    next
      case 2
      with assms show ?thesis by (simp add: cart_ok_def)
    qed
  qed
  ultimately show ?thesis using assms(1) by (simp add: cart_ok_def)
qed

lemma cart_ok_push:
  assumes "cart_ok c" "find (has_id (id_of p)) c = None"
  shows "cart_ok (c @ [\<lparr>spread = Some p, qty = 1\<rparr>])"
proof -
  from assms(2) have "\<forall>i\<in>set c. line_id i \<noteq> Some (id_of p)"
    by (simp add: find_None_iff has_id_def)
  then have "Some (id_of p) \<notin> line_id ` set c" by auto
  with assms(1) show ?thesis by (simp add: cart_ok_def line_id_def)
qed

lemma cart_ok_filter: "cart_ok c \<Longrightarrow> cart_ok (filter P c)"
  by (auto simp: cart_ok_def distinct_map_filter)

lemma reachable_cart_ok: "reachable s \<Longrightarrow> cart_ok (cart s)"
proof (induction rule: reachable.induct)
  case (start s)
  then show ?case by (simp add: cart_ok_def)
next
  case (add s p)
  then show ?case
    by (auto simp: cart_addToCart cart_ok_push intro!: cart_ok_modify split: option.split)
next
  case (change s n q)
  then show ?case by (auto simp: cart_changeQty intro!: cart_ok_modify)
next
  case (remove s n)
  then show ?case by (simp add: cart_removeFromCart cart_ok_filter)
next
  case (clear s answer)
  then show ?case by (simp add: cart_clearCart cart_ok_def)
next
  case (checkout s)
  then show ?case by (simp add: cart_checkout cart_ok_def)
qed

lemma find_append_last:
  "find P c = None \<Longrightarrow> P l \<Longrightarrow> find P (c @ [l]) = Some l"
  by (induction c) (auto split: if_splits)

lemma modify_first_append_last:
  "find P c = None \<Longrightarrow> P l \<Longrightarrow> modify_first P f (c @ [l]) = c @ [f l]"
  by (induction c) (auto split: if_splits)

lemma filter_absent: "find P c = None \<Longrightarrow> filter P c = []"
  by (induction c) (auto split: if_splits)

lemma add_again:
  assumes "find (has_id (id_of p)) c = None" and "cart s = c @ [\<lparr>spread = Some p, qty = k\<rparr>]"
  shows "cart (after (addToCart (Some p) s)) = c @ [\<lparr>spread = Some p, qty = k + 1\<rparr>]"
proof -
  have l: "has_id (id_of p) \<lparr>spread = Some p, qty = k\<rparr>"
    by (simp add: has_id_def line_id_def)
  show ?thesis
    by (simp add: cart_addToCart assms(2) find_append_last[OF assms(1) l]
        modify_first_append_last[OF assms(1) l])
qed

subsection \<open>C1: the cart invariant\<close>

text \<open>
  Claim C1. Every state reached from an empty cart by \<^verbatim>\<open>addToCart\<close>, \<^verbatim>\<open>changeQty\<close>,
  \<^verbatim>\<open>removeFromCart\<close>, \<^verbatim>\<open>clearCart\<close> and \<^verbatim>\<open>checkout\<close> has at most one line per id and a quantity
  of at least one on every line. \<^verbatim>\<open>changeQty(n, -1)\<close> on a line of quantity one leaves the
  cart as it is; \<^verbatim>\<open>changeQty\<close> never removes or reorders a line; and on an id the cart does
  not hold it returns at once, with the state untouched.
\<close>

theorem cart_invariant:
  "(reachable s \<longrightarrow> distinct (map line_id (cart s)) \<and> (\<forall>i\<in>set (cart s). 1 \<le> qty i)) \<and>
   (\<forall>i. find (has_id n) (cart s) = Some i \<and> qty i = 1 \<longrightarrow>
        cart (after (changeQty n (- 1) s)) = cart s) \<and>
   map line_id (cart (after (changeQty n q s))) = map line_id (cart s) \<and>
   ((\<forall>i\<in>set (cart s). line_id i \<noteq> Some n) \<longrightarrow> changeQty n q s = Done s)"
proof (intro conjI impI allI)
  assume "reachable s"
  then have "cart_ok (cart s)" by (rule reachable_cart_ok)
  then show "distinct (map line_id (cart s))" and "\<forall>i\<in>set (cart s). 1 \<le> qty i"
    by (simp_all add: cart_ok_def)
next
  fix i
  assume h: "find (has_id n) (cart s) = Some i \<and> qty i = 1"
  have "modify_first (has_id n) (\<lambda>i. i\<lparr>qty := max 1 (qty i + (- 1))\<rparr>) (cart s) = cart s"
    by (rule modify_first_same) (use h in simp)
  then show "cart (after (changeQty n (- 1) s)) = cart s"
    by (simp only: cart_changeQty)
next
  show "map line_id (cart (after (changeQty n q s))) = map line_id (cart s)"
    by (simp add: cart_changeQty map_line_id_modify_first line_id_def)
next
  assume "\<forall>i\<in>set (cart s). line_id i \<noteq> Some n"
  then have "find (has_id n) (cart s) = None"
    by (simp add: find_None_iff has_id_def)
  then show "changeQty n q s = Done s" by (rule changeQty_absent)
qed

theorem cart_invariant_witness:
  "reachable (after (addToCart (Some red_shirt) shop)) \<and>
   distinct (map line_id (cart (after (addToCart (Some red_shirt) shop)))) \<and>
   find (has_id 1) (cart (after (addToCart (Some red_shirt) shop))) =
     Some \<lparr>spread = Some red_shirt, qty = 1\<rparr> \<and>
   cart (after (changeQty 1 (- 1) (after (addToCart (Some red_shirt) shop)))) =
     [\<lparr>spread = Some red_shirt, qty = 1\<rparr>] \<and>
   changeQty 2 (- 1) (after (addToCart (Some red_shirt) shop)) =
     Done (after (addToCart (Some red_shirt) shop))"
proof -
  let ?s = "after (addToCart (Some red_shirt) shop)"
  have c: "cart ?s = [\<lparr>spread = Some red_shirt, qty = 1\<rparr>]"
    by (simp add: cart_addToCart shop_def)
  have r: "reachable ?s"
    by (rule reachable.add, rule reachable.start) (simp add: shop_def)
  have f: "find (has_id 1) (cart ?s) = Some \<lparr>spread = Some red_shirt, qty = 1\<rparr>"
    unfolding c by (simp add: has_id_def line_id_def red_shirt_def)
  have a: "\<forall>i\<in>set (cart ?s). line_id i \<noteq> Some 2"
    unfolding c by (simp add: line_id_def red_shirt_def)
  from cart_invariant[of ?s 1 "- 1"] r f c
  have 1: "distinct (map line_id (cart ?s))"
    and 2: "cart (after (changeQty 1 (- 1) ?s)) = [\<lparr>spread = Some red_shirt, qty = 1\<rparr>]"
    by simp_all
  from cart_invariant[of ?s 2 "- 1"] a have 3: "changeQty 2 (- 1) ?s = Done ?s" by blast
  from r 1 f 2 3 show ?thesis by blast
qed

subsection \<open>C2: adding the same product \<open>n\<close> times\<close>

text \<open>
  Claim C2. From a cart with no line for \<^verbatim>\<open>p.id\<close>, \<open>n \<ge> 1\<close> calls of \<^verbatim>\<open>addToCart(p)\<close> in a row
  leave the earlier lines as they were, followed by one line for \<open>p\<close> of quantity \<open>n\<close>, the
  only line with that id: the first call appends it with quantity one and each later call
  adds one to it.
\<close>

theorem add_n_times:
  assumes "\<forall>i\<in>set (cart s). line_id i \<noteq> Some (id_of p)" and "1 \<le> n"
  shows "cart (((\<lambda>s. after (addToCart (Some p) s)) ^^ n) s) =
           cart s @ [\<lparr>spread = Some p, qty = int n\<rparr>] \<and>
         filter (has_id (id_of p)) (cart (((\<lambda>s. after (addToCart (Some p) s)) ^^ n) s)) =
           [\<lparr>spread = Some p, qty = int n\<rparr>]"
proof -
  from assms(1) have none: "find (has_id (id_of p)) (cart s) = None"
    by (simp add: find_None_iff has_id_def)
  from assms(2) have c: "cart (((\<lambda>s. after (addToCart (Some p) s)) ^^ n) s) =
      cart s @ [\<lparr>spread = Some p, qty = int n\<rparr>]"
  proof (induction n rule: nat_induct_at_least)
    case base
    show ?case by (simp add: cart_addToCart none)
  next
    case (Suc n)
    from add_again[OF none Suc.IH] show ?case by (simp add: add.commute)
  qed
  have "filter (has_id (id_of p)) (cart s @ [\<lparr>spread = Some p, qty = int n\<rparr>]) =
      [\<lparr>spread = Some p, qty = int n\<rparr>]"
    by (simp add: filter_absent[OF none]) (simp add: has_id_def line_id_def)
  with c show ?thesis by simp
qed

theorem add_n_times_witness:
  "cart shop = [] \<and> (1::nat) \<le> 3 \<and>
   cart (((\<lambda>s. after (addToCart (Some red_shirt) s)) ^^ 3) shop) =
     [\<lparr>spread = Some red_shirt, qty = 3\<rparr>]"
proof -
  have e: "cart shop = []"
    by (simp add: shop_def)
  then have h: "\<forall>i\<in>set (cart shop). line_id i \<noteq> Some (id_of red_shirt)"
    by simp
  from add_n_times[OF h, of 3] e show ?thesis by simp
qed

subsection \<open>C7: removing a line and adding the product again\<close>



subsection \<open>Small evaluations\<close>


lemma show_nat_digit: "n < 10 \<Longrightarrow> show_nat n = [digit_char n]"
  by (simp add: show_nat.simps)

lemma show_int_0: "show_int 0 = ''0''"
  by (simp add: show_int_def show_nat_digit digit_char_def)

lemma show_int_1: "show_int 1 = ''1''"
  by (simp add: show_int_def show_nat_digit digit_char_def)

lemma toFixed2_0: "toFixed2 (Some 0) = ''0.00''"
  by (simp add: toFixed2_def show_nat_digit digit_char_def)

lemma saveCart_empty:
  "cart s = [] \<Longrightarrow> saveCart s = s\<lparr>localStorage := (localStorage s)(''cart'' \<mapsto> ''[]'')\<rparr>"
  by (simp add: saveCart_def cart_json_def)

lemma updateCartUI_empty:
  "cart s = [] \<Longrightarrow>
   updateCartUI s = Done (s\<lparr>cartCount := ''0'', cartItems := EmptyCart, cartTotal := ''0.00''\<rparr>)"
  by (simp add: updateCartUI_def itemCount_def grandTotal_def show_int_0 toFixed2_0)

subsection \<open>C6: checkout\<close>

text \<open>
  Claim C6. On an empty cart \<^verbatim>\<open>checkout\<close> shows the alert that the cart is empty and changes
  nothing else: nothing is stored and no part of the page changes. On a cart with a line
  it shows the alert of the purchase, asks for no confirmation, empties the cart, stores
  the empty cart, renders it and closes the cart panel.
\<close>

theorem checkout_cases:
  "(cart s = [] \<longrightarrow> checkout s = Done (s\<lparr>notices := notices s @ [Alert msg_empty_cart]\<rparr>)) \<and>
   (cart s \<noteq> [] \<longrightarrow>
      checkout s =
        Done (s\<lparr>cart := [], localStorage := (localStorage s)(''cart'' \<mapsto> ''[]''),
                cartCount := ''0'', cartItems := EmptyCart, cartTotal := ''0.00'',
                cartHidden := True, cartExpanded := False,
                notices := notices s @ [Alert ''Compra realizada (demo)'']\<rparr>))"
  by (simp add: checkout_def alert_def saveCart_empty updateCartUI_empty closeCart_def)

theorem checkout_cases_witness:
  "cart shop = [] \<and>
   checkout shop = Done (shop\<lparr>notices := notices shop @ [Alert msg_empty_cart]\<rparr>) \<and>
   cart (after (addToCart (Some red_shirt) shop)) \<noteq> [] \<and>
   cart (after (checkout (after (addToCart (Some red_shirt) shop)))) = [] \<and>
   cartHidden (after (checkout (after (addToCart (Some red_shirt) shop)))) \<and>
   localStorage (after (checkout (after (addToCart (Some red_shirt) shop)))) ''cart'' = Some ''[]''"
proof -
  let ?s = "after (addToCart (Some red_shirt) shop)"
  have e: "cart shop = []" by (simp add: shop_def)
  have n: "cart ?s \<noteq> []" by (simp add: cart_addToCart shop_def)
  from checkout_cases[of shop] e
  have 1: "checkout shop = Done (shop\<lparr>notices := notices shop @ [Alert msg_empty_cart]\<rparr>)"
    by blast
  from checkout_cases[of ?s] n
  have 2: "checkout ?s =
        Done (?s\<lparr>cart := [], localStorage := (localStorage ?s)(''cart'' \<mapsto> ''[]''),
                cartCount := ''0'', cartItems := EmptyCart, cartTotal := ''0.00'',
                cartHidden := True, cartExpanded := False,
                notices := notices ?s @ [Alert ''Compra realizada (demo)'']\<rparr>)"
    by blast
  show ?thesis
    unfolding 1 2 using e n by simp
qed

subsection \<open>C5: totals\<close>







subsection \<open>C10: a click on an id the catalog does not hold\<close>

lemma addToCart_undefined_empty:
  assumes "cart s = []"
  shows "addToCart None s =
    Threw (TypeError ''toFixed'')
      (s\<lparr>cart := [\<lparr>spread = None, qty = 1\<rparr>],
         localStorage := (localStorage s)(''cart'' \<mapsto> stringify (JArr [JObj [(''qty'', JNum 1)]])),
         cartCount := ''1''\<rparr>)"
  using assms
  by (simp add: addToCart_def added_def saveCart_def updateCartUI_def render_item_def
      cart_json_def line_json_def itemCount_def show_int_1)

lemma addToCart_undefined_nonempty:
  "cart s \<noteq> [] \<Longrightarrow> addToCart None s = Threw (TypeError ''id'') s"
  by (simp add: addToCart_def)

text \<open>
  Claim C10, as stated: for every id with no product in the catalog, the click on an
  \<^verbatim>\<open>add\<close> button passes \<^verbatim>\<open>undefined\<close> to \<^verbatim>\<open>addToCart\<close>, which fails reading \<^verbatim>\<open>prod.id\<close>. On an
  empty cart it does not: \<^verbatim>\<open>find\<close> never calls the callback that reads \<^verbatim>\<open>prod.id\<close>, the line
  \<^verbatim>\<open>{ qty: 1 }\<close> is pushed and stored, and the exception comes from \<^verbatim>\<open>updateCartUI\<close>, reading
  \<^verbatim>\<open>toFixed\<close> of the line's missing price.
\<close>

theorem add_unknown_id_counterexample:
  "thrown (handleProductClick \<lparr>data_id = Some 5, data_action = None, classList = [''add'']\<rparr> shop)
     = Some (TypeError ''toFixed'') \<and>
   cart (after (handleProductClick \<lparr>data_id = Some 5, data_action = None, classList = [''add'']\<rparr> shop))
     = [\<lparr>spread = None, qty = 1\<rparr>] \<and>
   localStorage (after (handleProductClick
       \<lparr>data_id = Some 5, data_action = None, classList = [''add'']\<rparr> shop)) ''cart''
     = Some [CHR ''['', CHR ''{'', CHR 0x22, CHR ''q'', CHR ''t'', CHR ''y'', CHR 0x22, CHR '':'',
             CHR ''1'', CHR ''}'', CHR '']'']"
proof -
  have "stringify (JArr [JObj [(''qty'', JNum 1)]]) =
      [CHR ''['', CHR ''{'', CHR 0x22, CHR ''q'', CHR ''t'', CHR ''y'', CHR 0x22, CHR '':'',
       CHR ''1'', CHR ''}'', CHR '']'']"
    by (simp add: quote_def quote_char_def show_num_def show_nat_digit digit_char_def)
  then show ?thesis
    by (simp add: handleProductClick_def shop_def red_shirt_def blue_hat_def addToCart_undefined_empty)
qed

text \<open>
  Claim C10, amended. For a click on an \<^verbatim>\<open>add\<close> button whose id is a number other than zero
  with no product in the catalog, \<^verbatim>\<open>addToCart\<close> is called with \<^verbatim>\<open>undefined\<close>. On a cart with a
  line it throws a \<^verbatim>\<open>TypeError\<close> reading \<^verbatim>\<open>prod.id\<close> and changes nothing. On an empty cart it
  pushes the line \<^verbatim>\<open>{ qty: 1 }\<close>, stores the cart, sets the count to 1, and then throws a
  \<^verbatim>\<open>TypeError\<close> in \<^verbatim>\<open>updateCartUI\<close>, reading \<^verbatim>\<open>toFixed\<close> of the missing price.
\<close>

theorem add_unknown_id:
  assumes "data_id t = Some n" and "n \<noteq> 0" and "''add'' \<in> set (classList t)"
    and "\<forall>p\<in>set (products s). id_of p \<noteq> n"
  shows "(cart s \<noteq> [] \<longrightarrow> handleProductClick t s = Threw (TypeError ''id'') s) \<and>
         (cart s = [] \<longrightarrow>
            handleProductClick t s =
              Threw (TypeError ''toFixed'')
                (s\<lparr>cart := [\<lparr>spread = None, qty = 1\<rparr>],
                   localStorage := (localStorage s)(''cart'' \<mapsto>
                     stringify (JArr [JObj [(''qty'', JNum 1)]])),
                   cartCount := ''1''\<rparr>))"
proof -
  from assms(4) have "find (\<lambda>p. id_of p = n) (products s) = None"
    by (simp add: find_None_iff)
  with assms(1-3) have "handleProductClick t s = and_then (addToCart None s)
       (\<lambda>s'. if ''details'' \<in> set (classList t)
             then Done (s'\<lparr>notices := notices s' @ [Opened (PRODUCTS_URL @ ''/'' @ show_int n)]\<rparr>)
             else Done s')"
    by (simp add: handleProductClick_def)
  then show ?thesis
    by (auto simp: addToCart_undefined_empty addToCart_undefined_nonempty)
qed

theorem add_unknown_id_witness:
  "handleProductClick \<lparr>data_id = Some 5, data_action = None, classList = [''add'']\<rparr>
     (shop\<lparr>cart := [\<lparr>spread = Some red_shirt, qty = 1\<rparr>]\<rparr>) =
     Threw (TypeError ''id'') (shop\<lparr>cart := [\<lparr>spread = Some red_shirt, qty = 1\<rparr>]\<rparr>) \<and>
   thrown (handleProductClick \<lparr>data_id = Some 5, data_action = None, classList = [''add'']\<rparr>
     (shop\<lparr>cart := []\<rparr>)) = Some (TypeError ''toFixed'')"
proof -
  let ?t = "\<lparr>data_id = Some 5, data_action = None, classList = [''add'']\<rparr>"
  let ?s = "shop\<lparr>cart := [\<lparr>spread = Some red_shirt, qty = 1\<rparr>]\<rparr>"
  have 1: "handleProductClick ?t ?s = Threw (TypeError ''id'') ?s"
    using add_unknown_id[of ?t 5 ?s] by (simp add: shop_def red_shirt_def blue_hat_def)
  have 2: "thrown (handleProductClick ?t (shop\<lparr>cart := []\<rparr>)) = Some (TypeError ''toFixed'')"
    using add_unknown_id[of ?t 5 "shop\<lparr>cart := []\<rparr>"]
    by (simp add: shop_def red_shirt_def blue_hat_def)
  from 1 2 show ?thesis by simp
qed

subsection \<open>C3: the filter\<close>

lemma starts_with_iff: "starts_with s q \<longleftrightarrow> (\<exists>suf. s = q @ suf)"
  by (induction s q rule: starts_with.induct) auto

lemma includes_str_iff: "includes_str s q \<longleftrightarrow> (\<exists>pre suf. s = pre @ q @ suf)"
proof (induction s)
  case Nil
  then show ?case by simp
next
  case (Cons c s)
  show ?case
  proof
    assume "includes_str (c # s) q"
    then consider "starts_with (c # s) q" | "includes_str s q" by auto
    then show "\<exists>pre suf. c # s = pre @ q @ suf"
    proof cases
      case 1
      then obtain suf where "c # s = q @ suf" by (auto simp: starts_with_iff)
      then have "c # s = [] @ q @ suf" by simp
      then show ?thesis by blast
    next
      case 2
      with Cons.IH obtain pre suf where "s = pre @ q @ suf" by blast
      then have "c # s = (c # pre) @ q @ suf" by simp
      then show ?thesis by blast
    qed
  next
    assume "\<exists>pre suf. c # s = pre @ q @ suf"
    then obtain pre suf where e: "c # s = pre @ q @ suf" by blast
    show "includes_str (c # s) q"
    proof (cases pre)
      case Nil
      with e have "starts_with (c # s) q" by (auto simp: starts_with_iff)
      then show ?thesis by simp
    next
      case (Cons d pre')
      with e have "s = pre' @ q @ suf" by simp
      with Cons.IH have "includes_str s q" by blast
      then show ?thesis by simp
    qed
  qed
qed

lemma ci_substring_iff: "ci_substring q s \<longleftrightarrow> includes_str (toLowerCase s) (toLowerCase q)"
proof
  assume "ci_substring q s"
  then obtain pre mid suf where "s = pre @ mid @ suf" "toLowerCase mid = toLowerCase q"
    by (auto simp: ci_substring_def)
  then have "toLowerCase s = toLowerCase pre @ toLowerCase q @ toLowerCase suf"
    by (simp add: toLowerCase_def)
  then show "includes_str (toLowerCase s) (toLowerCase q)"
    unfolding includes_str_iff by blast
next
  assume "includes_str (toLowerCase s) (toLowerCase q)"
  then obtain a b where "map lower_char s = a @ toLowerCase q @ b"
    unfolding includes_str_iff toLowerCase_def by blast
  then obtain pre r where s: "s = pre @ r" and r: "map lower_char r = toLowerCase q @ b"
    by (metis map_eq_append_conv)
  from r obtain mid suf where "r = mid @ suf" "map lower_char mid = toLowerCase q"
    by (metis map_eq_append_conv)
  with s show "ci_substring q s"
    by (auto simp: ci_substring_def toLowerCase_def)
qed

lemma includes_str_Nil: "includes_str s []"
  by (cases s) simp_all

lemma filtered_renderProducts [simp]: "filtered (renderProducts l s) = filtered s"
  by (simp add: renderProducts_def)

lemma products_renderProducts [simp]: "products (renderProducts l s) = products s"
  by (simp add: renderProducts_def)

text \<open>
  Claim C3, amended. \<^verbatim>\<open>applyFilters\<close> leaves in \<^verbatim>\<open>filtered\<close> exactly the products of the
  catalog, in the catalog's order, whose category is the selected one (or any, when
  \<^verbatim>\<open>all\<close> is selected) and whose title or description holds the search text, with the white
  space around it removed, as a case-insensitive substring. With \<^verbatim>\<open>all\<close> selected and a
  search text that is empty or white space, \<^verbatim>\<open>filtered\<close> is the whole catalog.
\<close>

theorem applyFilters_filtered:
  "filtered (applyFilters s) =
     filter (\<lambda>p. (categoryValue s = ''all'' \<or> category p = categoryValue s) \<and>
                 (ci_substring (trim (searchValue s)) (title p) \<or>
                  ci_substring (trim (searchValue s)) (description p))) (products s) \<and>
   products (applyFilters s) = products s \<and>
   (categoryValue s = ''all'' \<and> trim (searchValue s) = [] \<longrightarrow> filtered (applyFilters s) = products s)"
proof (intro conjI impI)
  show f: "filtered (applyFilters s) =
     filter (\<lambda>p. (categoryValue s = ''all'' \<or> category p = categoryValue s) \<and>
                 (ci_substring (trim (searchValue s)) (title p) \<or>
                  ci_substring (trim (searchValue s)) (description p))) (products s)"
    by (simp add: applyFilters_def Let_def ci_substring_iff)
  show "products (applyFilters s) = products s"
    by (simp add: applyFilters_def Let_def)
  assume "categoryValue s = ''all'' \<and> trim (searchValue s) = []"
  then show "filtered (applyFilters s) = products s"
    by (simp add: applyFilters_def Let_def toLowerCase_def includes_str_Nil)
qed

text \<open>
  Claim C3, as stated: the products returned are those whose title or description holds
  the query as a case-insensitive substring. The code trims the query first: with the
  search text \<^verbatim>\<open>"hat "\<close> it returns the blue hat, and neither the title \<^verbatim>\<open>"Blue Hat"\<close> nor the
  empty description holds \<^verbatim>\<open>"hat "\<close> with its trailing space.
\<close>

lemma trim_hat: "trim ''hat '' = ''hat''"
  by (simp add: trim_def is_space_def)

theorem applyFilters_counterexample:
  "filtered (applyFilters (shop\<lparr>searchValue := ''hat ''\<rparr>)) = [blue_hat] \<and>
   \<not> ci_substring ''hat '' (title blue_hat) \<and> \<not> ci_substring ''hat '' (description blue_hat)"
proof -
  have l: "toLowerCase ''hat '' = ''hat ''" "toLowerCase ''hat'' = ''hat''"
    "toLowerCase ''Blue Hat'' = ''blue hat''" "toLowerCase ''Red Shirt'' = ''red shirt''"
    by code_simp+
  have 1: "\<not> ci_substring ''hat '' (title blue_hat)"
    by (simp add: ci_substring_iff blue_hat_def l)
  have 2: "\<not> ci_substring ''hat '' (description blue_hat)"
    by (simp add: ci_substring_iff blue_hat_def l toLowerCase_def)
  have 3: "filtered (applyFilters (shop\<lparr>searchValue := ''hat ''\<rparr>)) = [blue_hat]"
    by (simp add: applyFilters_def shop_def trim_hat Let_def)
      (simp add: red_shirt_def blue_hat_def l, simp add: toLowerCase_def)
  from 1 2 3 show ?thesis by simp
qed

theorem applyFilters_filtered_witness:
  "categoryValue shop = ''all'' \<and> trim (searchValue shop) = [] \<and>
   filtered (applyFilters shop) = [red_shirt, blue_hat] \<and>
   filtered (applyFilters (shop\<lparr>searchValue := '' SHIRT''\<rparr>)) = [red_shirt]"
proof -
  have h: "categoryValue shop = ''all'' \<and> trim (searchValue shop) = []"
    by (simp add: shop_def trim_def)
  with applyFilters_filtered[of shop] have "filtered (applyFilters shop) = products shop"
    by blast
  then have 1: "filtered (applyFilters shop) = [red_shirt, blue_hat]"
    by (simp add: shop_def)
  have t: "trim '' SHIRT'' = ''SHIRT''"
    by (simp add: trim_def is_space_def)
  have l: "toLowerCase ''SHIRT'' = ''shirt''"
    "toLowerCase ''Blue Hat'' = ''blue hat''" "toLowerCase ''Red Shirt'' = ''red shirt''"
    by code_simp+
  have c: "ci_substring ''SHIRT'' (title red_shirt)" "\<not> ci_substring ''SHIRT'' (title blue_hat)"
    "\<not> ci_substring ''SHIRT'' (description blue_hat)"
    by (simp_all add: ci_substring_iff red_shirt_def blue_hat_def l) (simp add: toLowerCase_def)
  from applyFilters_filtered[of "shop\<lparr>searchValue := '' SHIRT''\<rparr>"]
  have "filtered (applyFilters (shop\<lparr>searchValue := '' SHIRT''\<rparr>)) =
     filter (\<lambda>p. ci_substring ''SHIRT'' (title p) \<or> ci_substring ''SHIRT'' (description p))
       [red_shirt, blue_hat]"
    by (simp add: shop_def t)
  with c have 2: "filtered (applyFilters (shop\<lparr>searchValue := '' SHIRT''\<rparr>)) = [red_shirt]"
    by simp
  from h 1 2 show ?thesis by simp
qed

subsection \<open>C8: the contact form\<close>

lemma matches_One: "matches (One c # r) s \<longleftrightarrow> (\<exists>b. s = c # b \<and> matches r b)"
  by (cases s) auto

lemma matches_Many:
  "matches (Many P # r) s \<longleftrightarrow> (\<exists>a b. s = a @ b \<and> a \<noteq> [] \<and> (\<forall>x\<in>set a. P x) \<and> matches r b)"
proof (induction s)
  case Nil
  then show ?case by simp
next
  case (Cons x s)
  note IH = Cons.IH
  show ?case
  proof
    assume "matches (Many P # r) (x # s)"
    then have px: "P x" and "matches (Many P # r) s \<or> matches r s" by simp_all
    then consider "matches (Many P # r) s" | "matches r s" by blast
    then show "\<exists>a b. x # s = a @ b \<and> a \<noteq> [] \<and> (\<forall>x\<in>set a. P x) \<and> matches r b"
    proof cases
      case 1
      with IH obtain a b where "s = a @ b" "\<forall>x\<in>set a. P x" "matches r b" by blast
      with px have "x # s = (x # a) @ b \<and> x # a \<noteq> [] \<and> (\<forall>y\<in>set (x # a). P y) \<and> matches r b"
        by simp
      then show ?thesis by blast
    next
      case 2
      with px have "x # s = [x] @ s \<and> [x] \<noteq> [] \<and> (\<forall>y\<in>set [x]. P y) \<and> matches r s"
        by simp
      then show ?thesis by blast
    qed
  next
    assume "\<exists>a b. x # s = a @ b \<and> a \<noteq> [] \<and> (\<forall>x\<in>set a. P x) \<and> matches r b"
    then obtain a b where e: "x # s = a @ b" and "a \<noteq> []" and p: "\<forall>x\<in>set a. P x" and m: "matches r b"
      by blast
    then obtain a' where a: "a = x # a'" and s: "s = a' @ b"
      by (cases a) auto
    show "matches (Many P # r) (x # s)"
    proof (cases a')
      case Nil
      with a s p m show ?thesis by simp
    next
      case (Cons y ys)
      with a s p m have "s = a' @ b \<and> a' \<noteq> [] \<and> (\<forall>x\<in>set a'. P x) \<and> matches r b"
        by simp
      then have "\<exists>a b. s = a @ b \<and> a \<noteq> [] \<and> (\<forall>x\<in>set a. P x) \<and> matches r b"
        by blast
      with IH have "matches (Many P # r) s" by simp
      with a p show ?thesis by simp
    qed
  qed
qed

lemma matches_email_re: "matches email_re s \<longleftrightarrow> email_shaped s"
proof
  assume "matches email_re s"
  then obtain a r1 where 1: "s = a @ r1" "a \<noteq> []" "\<forall>x\<in>set a. not_space_at x"
      and "matches [One CHR ''@'', Many not_space_at, One CHR ''.'', Many not_space_at] r1"
    unfolding email_re_def matches_Many by blast
  then obtain r2 where 2: "r1 = CHR ''@'' # r2"
      and "matches [Many not_space_at, One CHR ''.'', Many not_space_at] r2"
    unfolding matches_One by blast
  then obtain b r3 where 3: "r2 = b @ r3" "b \<noteq> []" "\<forall>x\<in>set b. not_space_at x"
      and "matches [One CHR ''.'', Many not_space_at] r3"
    unfolding matches_Many by blast
  then obtain r4 where 4: "r3 = CHR ''.'' # r4" and "matches [Many not_space_at] r4"
    unfolding matches_One by blast
  then obtain c r5 where 5: "r4 = c @ r5" "c \<noteq> []" "\<forall>x\<in>set c. not_space_at x"
      and "matches [] r5"
    unfolding matches_Many by blast
  then have 6: "r5 = []" by simp
  from 1 2 3 4 5 6 have "s = a @ ''@'' @ b @ ''.'' @ c \<and> a \<noteq> [] \<and> b \<noteq> [] \<and> c \<noteq> [] \<and>
      (\<forall>x\<in>set (a @ b @ c). \<not> is_space x \<and> x \<noteq> CHR ''@'')"
    by (simp add: not_space_at_def ball_Un)
  then show "email_shaped s"
    unfolding email_shaped_def by (intro exI[of _ a] exI[of _ b] exI[of _ c])
next
  assume "email_shaped s"
  then have "\<exists>a b c. s = a @ ''@'' @ b @ ''.'' @ c \<and> a \<noteq> [] \<and> b \<noteq> [] \<and> c \<noteq> [] \<and>
      (\<forall>x\<in>set (a @ b @ c). \<not> is_space x \<and> x \<noteq> CHR ''@'')"
    by (simp only: email_shaped_def)
  then obtain a b c where s: "s = a @ ''@'' @ b @ ''.'' @ c" and ne: "a \<noteq> []" "b \<noteq> []" "c \<noteq> []"
      and ok: "\<forall>x\<in>set (a @ b @ c). \<not> is_space x \<and> x \<noteq> CHR ''@''"
    by (elim exE conjE)
  from ok have oka: "\<forall>x\<in>set a. not_space_at x" and okb: "\<forall>x\<in>set b. not_space_at x"
    and okc: "\<forall>x\<in>set c. not_space_at x"
    by (simp_all add: not_space_at_def ball_Un)
  have 5: "matches [Many not_space_at] c"
    unfolding matches_Many using ne(3) okc by (intro exI[of _ c] exI[of _ "[]"]) simp
  then have 4: "matches [One CHR ''.'', Many not_space_at] (''.'' @ c)"
    by simp
  have 3: "matches [Many not_space_at, One CHR ''.'', Many not_space_at] (b @ ''.'' @ c)"
    unfolding matches_Many[of _ "[One CHR ''.'', Many not_space_at]"] using ne(2) okb 4
    by (intro exI[of _ b] exI[of _ "''.'' @ c"]) simp
  then have 2: "matches [One CHR ''@'', Many not_space_at, One CHR ''.'', Many not_space_at]
      (''@'' @ b @ ''.'' @ c)"
    by simp
  show "matches email_re s"
    unfolding email_re_def s
      matches_Many[of _ "[One CHR ''@'', Many not_space_at, One CHR ''.'', Many not_space_at]"]
    using ne(1) oka 2 by (intro exI[of _ a] exI[of _ "''@'' @ b @ ''.'' @ c"]) simp
qed

lemma email_ok_fixture: "matches email_re ''a@b.co''"
  by (simp add: email_re_def not_space_at_def is_space_def)

text \<open>
  Claim C8, amended. \<^verbatim>\<open>handleContactForm\<close> trims the three fields and \<^verbatim>\<open>validateContact\<close>
  reports, for the trimmed values: \<^verbatim>\<open>name\<close> iff the name has fewer than 2 characters,
  \<^verbatim>\<open>email\<close> iff the email is not a local part, an \<^verbatim>\<open>@\<close>, a domain, a dot and a top-level
  domain, the three parts not empty and free of white space and of \<^verbatim>\<open>@\<close>, and \<^verbatim>\<open>message\<close> iff
  the message has fewer than 10 characters; no other field is reported. The valid fixture
  has no error and the invalid one has all three.
\<close>

theorem validate_rules:
  "map_of (form_errors f) ''name'' =
     (if length (trim (name_value f)) < 2
      then Some ''El nombre debe tener al menos 2 caracteres'' else None) \<and>
   map_of (form_errors f) ''email'' =
     (if email_shaped (trim (email_value f)) then None else Some msg_email) \<and>
   map_of (form_errors f) ''message'' =
     (if length (trim (message_value f)) < 10 then Some ''Mensaje demasiado corto'' else None) \<and>
   set (map fst (form_errors f)) \<subseteq> {''name'', ''email'', ''message''} \<and>
   form_errors \<lparr>name_value = ''Ana'', email_value = ''a@b.co'',
                message_value = ''This is long enough.''\<rparr> = [] \<and>
   map fst (form_errors \<lparr>name_value = ''A'', email_value = ''bad'', message_value = ''short''\<rparr>) =
     [''name'', ''email'', ''message'']"
proof (intro conjI)
  show "map_of (form_errors f) ''name'' =
     (if length (trim (name_value f)) < 2
      then Some ''El nombre debe tener al menos 2 caracteres'' else None)"
    by (simp add: form_errors_def validateContact_def form_data_def)
  show "map_of (form_errors f) ''email'' =
     (if email_shaped (trim (email_value f)) then None else Some msg_email)"
    by (simp add: form_errors_def validateContact_def form_data_def matches_email_re)
  show "map_of (form_errors f) ''message'' =
     (if length (trim (message_value f)) < 10 then Some ''Mensaje demasiado corto'' else None)"
    by (simp add: form_errors_def validateContact_def form_data_def)
  show "set (map fst (form_errors f)) \<subseteq> {''name'', ''email'', ''message''}"
    by (auto simp: form_errors_def validateContact_def split: if_splits)
  have t: "trim ''Ana'' = ''Ana''" "trim ''a@b.co'' = ''a@b.co''"
    "trim ''This is long enough.'' = ''This is long enough.''"
    "trim ''A'' = ''A''" "trim ''bad'' = ''bad''" "trim ''short'' = ''short''"
    by (simp_all add: trim_def is_space_def)
  show "form_errors \<lparr>name_value = ''Ana'', email_value = ''a@b.co'',
                message_value = ''This is long enough.''\<rparr> = []"
    by (simp add: form_errors_def validateContact_def form_data_def t email_ok_fixture)
  have "\<not> matches email_re ''bad''"
    by (simp add: email_re_def)
  then show "map fst (form_errors \<lparr>name_value = ''A'', email_value = ''bad'', message_value = ''short''\<rparr>) =
     [''name'', ''email'', ''message'']"
    by (simp add: form_errors_def validateContact_def form_data_def t)
qed

theorem validate_rules_witness:
  "email_shaped ''a@b.co'' \<and>
   map_of (form_errors \<lparr>name_value = ''  Ana '', email_value = '' a@b.co'',
                message_value = ''short   ''\<rparr>) ''name'' = None \<and>
   map_of (form_errors \<lparr>name_value = ''  Ana '', email_value = '' a@b.co'',
                message_value = ''short   ''\<rparr>) ''email'' = None \<and>
   map_of (form_errors \<lparr>name_value = ''  Ana '', email_value = '' a@b.co'',
                message_value = ''short   ''\<rparr>) ''message'' = Some ''Mensaje demasiado corto''"
proof -
  let ?f = "\<lparr>name_value = ''  Ana '', email_value = '' a@b.co'', message_value = ''short   ''\<rparr>"
  have t: "trim ''  Ana '' = ''Ana''" "trim '' a@b.co'' = ''a@b.co''" "trim ''short   '' = ''short''"
    by (simp_all add: trim_def is_space_def)
  have e: "email_shaped ''a@b.co''"
    using email_ok_fixture by (simp only: matches_email_re)
  from validate_rules[of ?f] e show ?thesis
    by (simp add: t)
qed

text \<open>
  Claim C8, as stated: an error for \<^verbatim>\<open>email\<close> iff the email is not of the shape
  local part, \<^verbatim>\<open>@\<close>, domain, dot, top-level domain with parts free of white space. The email
  \<^verbatim>\<open>" a@b.co"\<close> is not of that shape, and is accepted, because the handler trims it;
  \<^verbatim>\<open>"a@b@c.d"\<close> is of that shape, and is refused, because the pattern has no part hold an
  \<^verbatim>\<open>@\<close>.
\<close>

theorem validate_counterexample:
  "map_of (form_errors \<lparr>name_value = ''Ana'', email_value = '' a@b.co'',
                message_value = ''This is long enough.''\<rparr>) ''email'' = None \<and>
   \<not> shaped_as_claimed '' a@b.co'' \<and>
   map_of (form_errors \<lparr>name_value = ''Ana'', email_value = ''a@b@c.d'',
                message_value = ''This is long enough.''\<rparr>) ''email'' = Some msg_email \<and>
   shaped_as_claimed ''a@b@c.d''"
proof (intro conjI)
  have t: "trim '' a@b.co'' = ''a@b.co''" "trim ''a@b@c.d'' = ''a@b@c.d''"
    by (simp_all add: trim_def is_space_def)
  show "map_of (form_errors \<lparr>name_value = ''Ana'', email_value = '' a@b.co'',
                message_value = ''This is long enough.''\<rparr>) ''email'' = None"
    by (simp add: form_errors_def validateContact_def form_data_def t email_ok_fixture)
  show "\<not> shaped_as_claimed '' a@b.co''"
  proof
    assume "shaped_as_claimed '' a@b.co''"
    then obtain a b c where s: "'' a@b.co'' = a @ ''@'' @ b @ ''.'' @ c"
      and ok: "\<forall>x\<in>set (a @ b @ c). \<not> is_space x"
      unfolding shaped_as_claimed_def by (elim exE conjE)
    have "CHR '' '' \<in> set '' a@b.co''" by simp
    then have "CHR '' '' \<in> set (a @ ''@'' @ b @ ''.'' @ c)" by (simp only: s)
    then have "CHR '' '' \<in> set (a @ b @ c)" by simp
    with ok have "\<not> is_space CHR '' ''" by blast
    then show False by (simp add: is_space_def)
  qed
  have "\<not> matches email_re ''a@b@c.d''"
    by (simp add: email_re_def not_space_at_def is_space_def)
  then show "map_of (form_errors \<lparr>name_value = ''Ana'', email_value = ''a@b@c.d'',
                message_value = ''This is long enough.''\<rparr>) ''email'' = Some msg_email"
    by (simp add: form_errors_def validateContact_def form_data_def t)
  have "''a@b@c.d'' = ''a@b'' @ ''@'' @ ''c'' @ ''.'' @ ''d'' \<and> ''a@b'' \<noteq> [] \<and> ''c'' \<noteq> [] \<and>
      ''d'' \<noteq> [] \<and> (\<forall>x\<in>set (''a@b'' @ ''c'' @ ''d''). \<not> is_space x)"
    by (simp add: is_space_def)
  then show "shaped_as_claimed ''a@b@c.d''"
    unfolding shaped_as_claimed_def by (intro exI[of _ "''a@b''"] exI[of _ "''c''"] exI[of _ "''d''"])
qed

subsection \<open>Numbers written and read back\<close>

lemma less_10_cases:
  "(m::nat) < 10 \<Longrightarrow> m = 0 \<or> m = 1 \<or> m = 2 \<or> m = 3 \<or> m = 4 \<or> m = 5 \<or> m = 6 \<or> m = 7 \<or> m = 8 \<or> m = 9"
  by arith

lemma digit_char_props:
  "is_digit (digit_char n) \<and> digit_val (digit_char n) = int (n mod 10)"
proof -
  have "n mod 10 < 10" by simp
  from less_10_cases[OF this] show ?thesis
    by (elim disjE) (simp_all add: digit_char_def is_digit_def digit_val_def)
qed

lemma is_digit_digit_char [simp]: "is_digit (digit_char n)"
  by (simp add: digit_char_props)

lemma digit_val_digit_char [simp]: "digit_val (digit_char n) = int (n mod 10)"
  by (simp add: digit_char_props)











lemma not_digit_simps [simp]: "\<not> is_digit CHR ''.''" "\<not> is_digit CHR ''-''"
  by (simp_all add: is_digit_def)








subsection \<open>Text written by \<^verbatim>\<open>JSON.stringify\<close> and read back by \<^verbatim>\<open>JSON.parse\<close>\<close>







lemma lex_space [simp]: "json_space c \<Longrightarrow> lex (c # cs) = lex cs"
  by (simp add: lex.simps)










lemma delimited_punctuation [simp]:
  "delimited (CHR '']'' # cs)" "delimited (CHR ''}'' # cs)" "delimited (CHR '','' # cs)"
  by (simp_all add: delimited_def num_char_def is_digit_def is_letter_def)

lemma and_token_and_tokens [simp]:
  "and_token t (and_tokens ts r) = and_tokens (t # ts) r"
  "and_tokens ts (and_token t r) = and_tokens (ts @ [t]) r"
  "and_tokens ts (and_tokens us r) = and_tokens (ts @ us) r"
  "and_token t r = and_tokens [t] r"
  by (simp_all add: and_token_def and_tokens_def split: option.splits)






subsection \<open>C4: saving and loading the cart\<close>








lemma not_falsy_array [simp]: "\<not> falsy (JArr vs)" "\<not> falsy (JObj ms)"
  by (simp_all add: falsy_def)




subsection \<open>C9: what \<^verbatim>\<open>loadCart\<close> returns is not validated\<close>

lemma parse_examples:
  "JSON_parse ''{}'' = Inr (JObj [])"
  "JSON_parse ''[{\"id\":1,\"qty\":0}]'' = Inr (JArr [JObj [(''id'', JNum 1), (''qty'', JNum 0)]])"
  by code_simp+

text \<open>
  Claim C9. \<^verbatim>\<open>loadCart\<close> returns what \<^verbatim>\<open>JSON.parse\<close> gives, whatever its shape: with \<^verbatim>\<open>{}\<close>
  stored it returns the empty object, which is not an array, and with
  \<^verbatim>\<open>[{"id":1,"qty":0}]\<close> stored it returns an array with a line of quantity zero; neither
  satisfies the invariants of the cart, and the module's \<^verbatim>\<open>cart\<close> starts as that value.
\<close>

theorem load_unvalidated:
  "loadCart [''cart'' \<mapsto> ''{}''] = JObj [] \<and>
   \<not> json_cart_ok (JObj []) \<and>
   loadCart [''cart'' \<mapsto> ''[{\"id\":1,\"qty\":0}]''] = JArr [JObj [(''id'', JNum 1), (''qty'', JNum 0)]] \<and>
   \<not> json_cart_ok (JArr [JObj [(''id'', JNum 1), (''qty'', JNum 0)]])"
  by (simp add: loadCart_def parse_examples json_cart_ok_def json_qty_def)

text \<open>The invariants read off the JSON value are those of the cart: a cart that satisfies
  \<open>cart_ok\<close> is stored as a value that satisfies \<open>json_cart_ok\<close>.\<close>

lemma json_cart_ok_cart_json:
  assumes "cart_ok c"
  shows "json_cart_ok (cart_json c)"
proof -
  have q: "json_qty (line_json i) = Some (of_int (qty i))" for i
    by (cases "spread i") (simp_all add: json_qty_def line_json_def product_json_def)
  have i: "json_id (line_json i) = map_option (\<lambda>n. JNum (of_int n)) (line_id i)" for i
    by (cases "spread i") (simp_all add: json_id_def line_json_def product_json_def line_id_def)
  have "inj (map_option (\<lambda>n :: int. JNum (of_int n)))"
    by (intro option.inj_map injI) simp
  then have "distinct (map (map_option (\<lambda>n :: int. JNum (of_int n))) (map line_id c))"
    using assms by (simp only: distinct_map cart_ok_def) (auto intro: inj_on_subset)
  then have "distinct (map json_id (map line_json c))"
    by (simp add: i o_def)
  moreover from assms have "list_all (\<lambda>l. case json_qty l of Some q \<Rightarrow> 1 \<le> q | None \<Rightarrow> False) (map line_json c)"
    by (simp add: list_all_iff q cart_ok_def)
  ultimately show ?thesis by (simp add: json_cart_ok_def cart_json_def)
qed

end
